theory Spec2Isabelle
  imports Main
begin

section \<open>Data model (types.ts)\<close>

text \<open>
  \<^verbatim>\<open>TickState = { tickIdx: number; liquidityDelta: bigint; upper: boolean }\<close> and
  \<^verbatim>\<open>PoolState = { ticks: TickState[]; currentTick: number; currentLiquidity: bigint; fee: number }\<close>.
  Tick indices and fees are integral JavaScript numbers, liquidity is a bigint: all are
  \<open>int\<close> here.
\<close>

record TickState =
  tickIdx :: int
  liquidityDelta :: int
  upper :: bool

text \<open>
  The array \<open>ticks\<close> is declared \<open>TickState[]\<close>, but \<open>handleMint\<close> pushes the tick
  number itself (\<^verbatim>\<open>pool.ticks.push(bottomTick)\<close>), so at run time an element is either a
  tick object or a bare number.
\<close>

datatype tick_entry = Tick TickState | Bare int

record PoolState =
  ticks :: "tick_entry list"
  currentTick :: int
  currentLiquidity :: int
  fee :: int

datatype error = TypeError

text \<open>Reading a property of an array element; a number has none of them (\<open>undefined\<close>).\<close>

fun entry_tickIdx :: "tick_entry \<Rightarrow> int option" where
  "entry_tickIdx (Tick t) = Some (tickIdx t)"
| "entry_tickIdx (Bare n) = None"

fun entry_liquidityDelta :: "tick_entry \<Rightarrow> int option" where
  "entry_liquidityDelta (Tick t) = Some (liquidityDelta t)"
| "entry_liquidityDelta (Bare n) = None"

fun entry_upper :: "tick_entry \<Rightarrow> bool" where
  "entry_upper (Tick t) = upper t"
| "entry_upper (Bare n) = False"

text \<open>
  \<^verbatim>\<open>e.liquidityDelta += d\<close> and \<^verbatim>\<open>e.liquidityDelta -= d\<close> with a bigint \<open>d\<close>: on a number
  the left operand is \<open>undefined\<close> and the arithmetic throws a TypeError.
\<close>

fun liquidityDelta_add :: "int \<Rightarrow> tick_entry \<Rightarrow> error + tick_entry" where
  "liquidityDelta_add d (Tick t) = Inr (Tick (t\<lparr>liquidityDelta := liquidityDelta t + d\<rparr>))"
| "liquidityDelta_add d (Bare n) = Inl TypeError"

fun liquidityDelta_sub :: "int \<Rightarrow> tick_entry \<Rightarrow> error + tick_entry" where
  "liquidityDelta_sub d (Tick t) = Inr (Tick (t\<lparr>liquidityDelta := liquidityDelta t - d\<rparr>))"
| "liquidityDelta_sub d (Bare n) = Inl TypeError"

text \<open>\<^verbatim>\<open>xs[i]\<close>: \<open>undefined\<close> (here \<open>None\<close>) outside \<open>0 .. length - 1\<close>, also at \<open>-1\<close>.\<close>

definition array_get :: "'a list \<Rightarrow> int \<Rightarrow> 'a option" where
  "array_get xs i = (if 0 \<le> i \<and> i < int (length xs) then Some (xs ! nat i) else None)"

text \<open>
  \<^verbatim>\<open>if (xs[i].upper) xs[i].liquidityDelta OP1= d; else xs[i].liquidityDelta OP2= d\<close>
  is \<open>with_tick xs i (\<lambda>e. if entry_upper e then OP1 d e else OP2 d e)\<close>: reading
  \<open>.upper\<close> of \<open>undefined\<close> throws, otherwise element \<open>i\<close> is updated in place.
\<close>

definition with_tick ::
  "tick_entry list \<Rightarrow> int \<Rightarrow> (tick_entry \<Rightarrow> error + tick_entry) \<Rightarrow> error + tick_entry list" where
  "with_tick xs i f =
     (case array_get xs i of
        None \<Rightarrow> Inl TypeError
      | Some e \<Rightarrow> (case f e of Inl err \<Rightarrow> Inl err | Inr e' \<Rightarrow> Inr (xs[nat i := e'])))"

text \<open>
  \<^verbatim>\<open>xs.slice(start, end)\<close> returns a new array with the elements from \<open>start\<close> up to, not
  including, \<open>end\<close> (negative positions count from the end). The receiver is not changed.
\<close>

definition slice :: "'a list \<Rightarrow> int \<Rightarrow> int \<Rightarrow> 'a list" where
  "slice xs start fin =
     (let len = int (length xs);
          k = (if start < 0 then max (len + start) 0 else min start len);
          final = (if fin < 0 then max (len + fin) 0 else min fin len)
      in take (nat (final - k)) (drop (nat k) xs))"

text \<open>
  \<^verbatim>\<open>pool.ticks.sort(function (a, b) { return a.tickIdx - b.tickIdx; })\<close>. The comparator
  yields NaN when an operand is a bare number, which \<open>sort\<close> reads as \<open>+0\<close>. The sort is
  stable; it is modelled by a stable insertion sort. The language fixes the result only
  where the comparator is consistent: on tick objects only (ascending by index, equal
  indices in their old order) and where all comparisons give 0, as on bare numbers only
  (the order stays). On other arrays, tick objects of different indices mixed with bare
  numbers, the order is left to the engine and may differ from the one computed here.
\<close>

definition compare_ticks :: "tick_entry \<Rightarrow> tick_entry \<Rightarrow> int" where
  "compare_ticks a b =
     (case (entry_tickIdx a, entry_tickIdx b) of
        (Some x, Some y) \<Rightarrow> x - y
      | _ \<Rightarrow> 0)"

fun insert_by :: "('a \<Rightarrow> 'a \<Rightarrow> int) \<Rightarrow> 'a \<Rightarrow> 'a list \<Rightarrow> 'a list" where
  "insert_by c x [] = [x]"
| "insert_by c x (y # ys) = (if c x y \<le> 0 then x # y # ys else y # insert_by c x ys)"

definition sort_by :: "('a \<Rightarrow> 'a \<Rightarrow> int) \<Rightarrow> 'a list \<Rightarrow> 'a list" where
  "sort_by c xs = foldr (insert_by c) xs []"

section \<open>Decoded events\<close>

text \<open>
  A decoded log carries its \<open>name\<close> and, under \<open>args\<close>, the fields of the event. The
  handlers read \<open>args.amount\<close>, \<open>args.bottomTick\<close>, \<open>args.topTick\<close>, \<open>args.Fee\<close>,
  \<open>args.tick\<close>; \<open>handleSwap\<close> alone reads \<open>event.arg\<close>, a property the decoder's result
  does not have (\<open>arg = None\<close> is \<open>undefined\<close>). Amounts are already integers here
  (\<^verbatim>\<open>BigInt(event.args.amount.toString())\<close>).
\<close>

record event_args =
  tick :: int
  liquidity :: int
  Fee :: int
  amount :: int
  bottomTick :: int
  topTick :: int

record event =
  name :: string
  arg :: "event_args option"
  args :: event_args

section \<open>The event handlers of AlgebraEventPool (algebra.ts)\<close>

text \<open>
  A handler receives the pool object and mutates it. \<open>Return p\<close>: the handler returned
  \<open>pool\<close>, whose contents are now \<open>p\<close>. \<open>Throw e p\<close>: it threw \<open>e\<close> when the contents of
  the object were \<open>p\<close>.
\<close>

datatype outcome = Return PoolState | Throw error PoolState

fun object_after :: "outcome \<Rightarrow> PoolState" where
  "object_after (Return p) = p"
| "object_after (Throw e p) = p"

definition handleSwap :: "event \<Rightarrow> PoolState \<Rightarrow> outcome" where
  "handleSwap event pool =
     (case arg event of
        None \<Rightarrow> Throw TypeError pool
      | Some a \<Rightarrow> Return (pool\<lparr>currentTick := tick a, currentLiquidity := liquidity a\<rparr>))"

definition handleChangeFee :: "event \<Rightarrow> PoolState \<Rightarrow> outcome" where
  "handleChangeFee event pool = Return (pool\<lparr>fee := Fee (args event)\<rparr>)"

text \<open>
  The binary search of \<open>getTickIdx\<close>. \<^verbatim>\<open>ticks[mid].tickIdx === tick\<close> is false for a bare
  number, and so is \<^verbatim>\<open>tick < undefined\<close>: the search then goes right.
\<close>

function getTickIdx_loop :: "int \<Rightarrow> tick_entry list \<Rightarrow> int \<Rightarrow> int \<Rightarrow> error + int" where
  "getTickIdx_loop tk tks left right =
     (if left \<le> right then
        (let mid = (left + right) div 2 in
         case array_get tks mid of
           None \<Rightarrow> Inl TypeError
         | Some e \<Rightarrow>
             if entry_tickIdx e = Some tk then Inr mid
             else if (case entry_tickIdx e of Some i \<Rightarrow> tk < i | None \<Rightarrow> False)
               then getTickIdx_loop tk tks left (mid - 1)
               else getTickIdx_loop tk tks (mid + 1) right)
      else Inr (- 1))"
  by pat_completeness auto
termination
  by (relation "measure (\<lambda>(tk, tks, left, right). nat (right - left + 1))") auto

definition getTickIdx :: "int \<Rightarrow> tick_entry list \<Rightarrow> error + int" where
  "getTickIdx tk tks = getTickIdx_loop tk tks 0 (int (length tks) - 1)"

text \<open>
  \<open>handleBurn\<close>. The two \<^verbatim>\<open>pool.ticks.slice(i, 1)\<close> statements build an array that is
  dropped (\<open>dropped1\<close>, \<open>dropped2\<close>); \<open>pool.ticks\<close> stays as it is.
\<close>

definition handleBurn :: "event \<Rightarrow> PoolState \<Rightarrow> outcome" where
  "handleBurn event pool =
     (let burntLiquidity = amount (args event);
          bottomTick = bottomTick (args event);
          topTick = topTick (args event)
      in case getTickIdx bottomTick (ticks pool) of
           Inl e \<Rightarrow> Throw e pool
         | Inr bottomTickIdx \<Rightarrow>
      (case getTickIdx topTick (ticks pool) of
           Inl e \<Rightarrow> Throw e pool
         | Inr topTickIdx \<Rightarrow>
      (case with_tick (ticks pool) bottomTickIdx
              (\<lambda>e. if entry_upper e then liquidityDelta_add burntLiquidity e
                   else liquidityDelta_sub burntLiquidity e) of
           Inl e \<Rightarrow> Throw e pool
         | Inr ticks1 \<Rightarrow>
      (case with_tick ticks1 topTickIdx
              (\<lambda>e. if entry_upper e then liquidityDelta_sub burntLiquidity e
                   else liquidityDelta_add burntLiquidity e) of
           Inl e \<Rightarrow> Throw e (pool\<lparr>ticks := ticks1\<rparr>)
         | Inr ticks2 \<Rightarrow>
        (let dropped1 =
               (if map_option entry_liquidityDelta (array_get ticks2 bottomTickIdx) = Some (Some 0)
                then slice ticks2 bottomTickIdx 1 else []);
             dropped2 =
               (if map_option entry_liquidityDelta (array_get ticks2 topTickIdx) = Some (Some 0)
                then slice ticks2 topTickIdx 1 else []);
             pool2 = pool\<lparr>ticks := ticks2\<rparr>
         in if currentTick pool < topTick \<and> currentTick pool > bottomTick
            then Return (pool2\<lparr>currentLiquidity := currentLiquidity pool - burntLiquidity\<rparr>)
            else Return pool2)))))"

definition handleMint :: "event \<Rightarrow> PoolState \<Rightarrow> outcome" where
  "handleMint event pool =
     (let addedLiquidity = amount (args event);
          bottomTick = bottomTick (args event);
          topTick = topTick (args event)
      in case getTickIdx bottomTick (ticks pool) of
           Inl e \<Rightarrow> Throw e pool
         | Inr bottomTickIdx \<Rightarrow>
      (case getTickIdx topTick (ticks pool) of
           Inl e \<Rightarrow> Throw e pool
         | Inr topTickIdx \<Rightarrow>
      (case (if bottomTickIdx = - 1 then Inr (ticks pool @ [Bare bottomTick])
             else with_tick (ticks pool) bottomTickIdx
                    (\<lambda>e. if entry_upper e then liquidityDelta_sub addedLiquidity e
                         else liquidityDelta_add addedLiquidity e)) of
           Inl e \<Rightarrow> Throw e pool
         | Inr ticks1 \<Rightarrow>
      (case (if topTickIdx = - 1 then Inr (ticks1 @ [Bare topTick])
             else with_tick ticks1 topTickIdx
                    (\<lambda>e. if entry_upper e then liquidityDelta_add addedLiquidity e
                         else liquidityDelta_sub addedLiquidity e)) of
           Inl e \<Rightarrow> Throw e (pool\<lparr>ticks := ticks1\<rparr>)
         | Inr ticks2 \<Rightarrow>
        (let pool2 = pool\<lparr>ticks := sort_by compare_ticks ticks2\<rparr>
         in if currentTick pool < topTick \<and> currentTick pool > bottomTick
            then Return (pool2\<lparr>currentLiquidity := currentLiquidity pool + addedLiquidity\<rparr>)
            else Return pool2)))))"

definition handleInitialize :: "event \<Rightarrow> PoolState \<Rightarrow> outcome" where
  "handleInitialize event pool = Return (pool\<lparr>fee := 500, currentTick := tick (args event)\<rparr>)"

text \<open>The own properties of the table \<open>handlers\<close>, filled by the constructor.\<close>

definition handlers :: "string \<Rightarrow> (event \<Rightarrow> PoolState \<Rightarrow> outcome) option" where
  "handlers n =
     (if n = ''Swap'' then Some handleSwap
      else if n = ''ChangeFee'' then Some handleChangeFee
      else if n = ''Burn'' then Some handleBurn
      else if n = ''Mint'' then Some handleMint
      else if n = ''Initialize'' then Some handleInitialize
      else None)"

text \<open>
  \<^verbatim>\<open>event.name in this.handlers\<close> is also true for the names that the table, a plain
  object, inherits from \<open>Object.prototype\<close>, and the inherited property is then called
  with \<open>(event, state, log)\<close>. \<open>ReturnsOther\<close>: the call returns a value that is not a
  pool state (\<open>constructor\<close> the event, \<open>toString\<close> and \<open>toLocaleString\<close> a string,
  \<open>valueOf\<close> the table, \<open>hasOwnProperty\<close>, \<open>isPrototypeOf\<close> and \<open>propertyIsEnumerable\<close>
  false, \<open>__lookupGetter__\<close> and \<open>__lookupSetter__\<close> undefined). \<open>Throws\<close>: the call throws a
  TypeError (\<open>__defineGetter__\<close> and \<open>__defineSetter__\<close> since the state is not a function,
  \<open>__proto__\<close> since it is no function itself). None of them writes to the state.
\<close>

datatype inherited = ReturnsOther | Throws

definition object_prototype :: "string \<Rightarrow> inherited option" where
  "object_prototype n =
     (if n \<in> set [''constructor'', ''hasOwnProperty'', ''isPrototypeOf'',
                   ''propertyIsEnumerable'', ''toString'', ''toLocaleString'', ''valueOf'',
                   ''__lookupGetter__'', ''__lookupSetter__'']
      then Some ReturnsOther
      else if n \<in> set [''__defineGetter__'', ''__defineSetter__'', ''__proto__'']
      then Some Throws
      else None)"

text \<open>
  \<open>processLog\<close> works on a reference: \<open>state\<close> names a pool object in the store, the
  handler mutates that object and the same reference is returned. \<open>logDecoder\<close> is the
  ABI decoder (\<open>None\<close>: it throws). The result is the value returned and the store
  afterwards; the value is \<open>null\<close>, a reference to a pool state, or, from an inherited
  property, something that is no pool state.
\<close>

type_synonym ref = nat
type_synonym store = "ref \<Rightarrow> PoolState"

datatype returned = Null | State ref | Other

definition processLog ::
  "('log \<Rightarrow> event option) \<Rightarrow> store \<Rightarrow> ref \<Rightarrow> 'log \<Rightarrow> returned \<times> store" where
  "processLog logDecoder s state lg =
     (case logDecoder lg of
        None \<Rightarrow> (Null, s)
      | Some event \<Rightarrow>
          (case handlers (name event) of
             Some handler \<Rightarrow>
               (case handler event (s state) of
                  Return p \<Rightarrow> (State state, s(state := p))
                | Throw e p \<Rightarrow> (Null, s(state := p)))
           | None \<Rightarrow>
               (case object_prototype (name event) of
                  Some ReturnsOther \<Rightarrow> (Other, s)
                | Some Throws \<Rightarrow> (Null, s)
                | None \<Rightarrow> (State state, s))))"

section \<open>mostSignificantBit.ts\<close>

definition ZERO :: int where
  "ZERO = 0"

definition MaxUint256 :: int where
  "MaxUint256 =
     115792089237316195423570985008687907853269984665640564039457584007913129639935"

definition POWERS_OF_2 :: "(nat \<times> int) list" where
  "POWERS_OF_2 = map (\<lambda>pow. (pow, 2 ^ pow)) [128, 64, 32, 16, 8, 4, 2, 1]"

text \<open>One turn of the \<open>for\<close> loop, on the pair of the working value and \<open>msb\<close>.\<close>

definition msb_step :: "nat \<times> int \<Rightarrow> int \<times> nat \<Rightarrow> int \<times> nat" where
  "msb_step pm st =
     (case pm of (pw, minimum) \<Rightarrow>
        (case st of (x, msb) \<Rightarrow>
           if x \<ge> minimum then (drop_bit pw x, msb + pw) else (x, msb)))"

definition mostSignificantBit :: "int \<Rightarrow> nat option" where
  "mostSignificantBit x =
     (if x \<le> ZERO \<or> x > MaxUint256 then None
      else Some (snd (fold msb_step POWERS_OF_2 (x, 0))))"

section \<open>Reading a pool state\<close>

text \<open>
  The stored \<open>liquidityDelta\<close> of a tick marked \<open>upper\<close> counts against the way
  \<open>handleMint\<close> books a lower bound (a lower bound at an \<open>upper\<close> tick subtracts, at
  any other tick adds). Read as a lower-bound-style delta, the net liquidity of a tick
  is therefore the stored delta, negated when the tick is \<open>upper\<close>. A bare number has no
  index and no delta.
\<close>

definition tick_net :: "TickState \<Rightarrow> int" where
  "tick_net t = (if upper t then - liquidityDelta t else liquidityDelta t)"

fun liquidityNet :: "tick_entry \<Rightarrow> int" where
  "liquidityNet (Tick t) = tick_net t"
| "liquidityNet (Bare n) = 0"

fun at_or_below :: "int \<Rightarrow> tick_entry \<Rightarrow> bool" where
  "at_or_below c (Tick t) = (tickIdx t \<le> c)"
| "at_or_below c (Bare n) = False"

text \<open>The sum of \<open>liquidityNet\<close> over the ticks whose index is at most \<open>currentTick\<close>.\<close>

definition activeLiquidity :: "PoolState \<Rightarrow> int" where
  "activeLiquidity pool =
     sum_list (map liquidityNet (filter (at_or_below (currentTick pool)) (ticks pool)))"

text \<open>Every element is a tick object and the indices strictly ascend.\<close>

fun is_tick :: "tick_entry \<Rightarrow> bool" where
  "is_tick (Tick t) = True"
| "is_tick (Bare n) = False"

fun index_less :: "tick_entry \<Rightarrow> tick_entry \<Rightarrow> bool" where
  "index_less (Tick a) (Tick b) = (tickIdx a < tickIdx b)"
| "index_less a b = False"

definition strictly_sorted :: "tick_entry list \<Rightarrow> bool" where
  "strictly_sorted tks = (list_all is_tick tks \<and> sorted_wrt index_less tks)"

fun zero_delta :: "tick_entry \<Rightarrow> bool" where
  "zero_delta (Tick t) = (liquidityDelta t = 0)"
| "zero_delta (Bare n) = False"

section \<open>Auxiliary definitions for the statements\<close>

text \<open>
  \<open>bump d t\<close> adds \<open>d\<close> to the net liquidity of the tick \<open>t\<close>: the stored delta grows
  by \<open>d\<close>, or shrinks by \<open>d\<close> when the tick is \<open>upper\<close>.
\<close>

definition bump :: "int \<Rightarrow> TickState \<Rightarrow> TickState" where
  "bump d t = t\<lparr>liquidityDelta := liquidityDelta t + (if upper t then - d else d)\<rparr>"

text \<open>
  Decoded events as the decoder builds them (no \<open>arg\<close> property), with the fields a
  handler reads: a tick range with an amount (Mint, Burn), a fee (ChangeFee), a tick with
  a fee (Initialize).
\<close>

definition decoded :: "string \<Rightarrow> event_args \<Rightarrow> event" where
  "decoded n a = \<lparr>name = n, arg = None, args = a\<rparr>"

definition range_args :: "int \<Rightarrow> int \<Rightarrow> int \<Rightarrow> event_args" where
  "range_args b t a =
     \<lparr>tick = 0, liquidity = 0, Fee = 0, amount = a, bottomTick = b, topTick = t\<rparr>"

definition fee_args :: "int \<Rightarrow> event_args" where
  "fee_args f = \<lparr>tick = 0, liquidity = 0, Fee = f, amount = 0, bottomTick = 0, topTick = 0\<rparr>"

definition tick_args :: "int \<Rightarrow> int \<Rightarrow> event_args" where
  "tick_args t f = \<lparr>tick = t, liquidity = 0, Fee = f, amount = 0, bottomTick = 0, topTick = 0\<rparr>"

text \<open>A store in which every reference holds the pool \<open>p\<close>.\<close>

definition one_pool :: "PoolState \<Rightarrow> store" where
  "one_pool p r = p"

section \<open>Theorems\<close>

declare getTickIdx_loop.simps [simp del]

lemma MaxUint256_eq: "MaxUint256 = 2 ^ 256 - 1"
  by (simp add: MaxUint256_def)

subsection \<open>mostSignificantBit\<close>

text \<open>
  One turn of the loop at threshold \<open>2 ^ p\<close> halves the bound on the working value and
  keeps it equal to the input shifted right by \<open>msb\<close>.
\<close>

lemma msb_step_inv:
  assumes "1 \<le> x" "x < 2 ^ (2 * p)" "x0 div 2 ^ m = x"
  shows "case msb_step (p, 2 ^ p) (x, m) of (x', m') \<Rightarrow> 1 \<le> x' \<and> x' < 2 ^ p \<and> x0 div 2 ^ m' = x'"
proof (cases "x \<ge> 2 ^ p")
  case True
  have "x < 2 ^ p * 2 ^ p" using assms(2) by (simp add: mult_2 power_add)
  have a: "x div 2 ^ p < 2 ^ p"
  proof (rule ccontr)
    assume "\<not> x div 2 ^ p < 2 ^ p"
    then have "(2::int) ^ p * 2 ^ p \<le> 2 ^ p * (x div 2 ^ p)"
      by (intro mult_left_mono) simp_all
    moreover have "x = 2 ^ p * (x div 2 ^ p) + x mod 2 ^ p" by simp
    moreover have "0 \<le> x mod 2 ^ p" by simp
    ultimately show False using \<open>x < 2 ^ p * 2 ^ p\<close> by linarith
  qed
  have "0 < x div 2 ^ p" using True
    by (subst pos_imp_zdiv_pos_iff) simp_all
  then have b: "1 \<le> x div 2 ^ p" by linarith
  have c: "x0 div 2 ^ (m + p) = x div 2 ^ p"
    using assms(3) by (simp add: power_add zdiv_zmult2_eq)
  show ?thesis using True a b c by (simp add: msb_step_def drop_bit_eq_div)
next
  case False
  then show ?thesis using assms by (simp add: msb_step_def mult_2 power_add)
qed

lemma msb_fold:
  assumes "1 \<le> x" "x < 2 ^ 256"
  shows "case fold msb_step POWERS_OF_2 (x, 0) of (x', m) \<Rightarrow> x' = 1 \<and> x div 2 ^ m = x'"
proof -
  obtain x1 m1 where s1: "msb_step (128, 2 ^ 128) (x, 0) = (x1, m1)" by force
  have i1: "1 \<le> x1 \<and> x1 < 2 ^ 128 \<and> x div 2 ^ m1 = x1"
    using msb_step_inv [of x 128 x 0] assms s1 by simp
  obtain x2 m2 where s2: "msb_step (64, 2 ^ 64) (x1, m1) = (x2, m2)" by force
  have i2: "1 \<le> x2 \<and> x2 < 2 ^ 64 \<and> x div 2 ^ m2 = x2"
    using msb_step_inv [of x1 64 x m1] i1 s2 by simp
  obtain x3 m3 where s3: "msb_step (32, 2 ^ 32) (x2, m2) = (x3, m3)" by force
  have i3: "1 \<le> x3 \<and> x3 < 2 ^ 32 \<and> x div 2 ^ m3 = x3"
    using msb_step_inv [of x2 32 x m2] i2 s3 by simp
  obtain x4 m4 where s4: "msb_step (16, 2 ^ 16) (x3, m3) = (x4, m4)" by force
  have i4: "1 \<le> x4 \<and> x4 < 2 ^ 16 \<and> x div 2 ^ m4 = x4"
    using msb_step_inv [of x3 16 x m3] i3 s4 by simp
  obtain x5 m5 where s5: "msb_step (8, 2 ^ 8) (x4, m4) = (x5, m5)" by force
  have i5: "1 \<le> x5 \<and> x5 < 2 ^ 8 \<and> x div 2 ^ m5 = x5"
    using msb_step_inv [of x4 8 x m4] i4 s5 by simp
  obtain x6 m6 where s6: "msb_step (4, 2 ^ 4) (x5, m5) = (x6, m6)" by force
  have i6: "1 \<le> x6 \<and> x6 < 2 ^ 4 \<and> x div 2 ^ m6 = x6"
    using msb_step_inv [of x5 4 x m5] i5 s6 by simp
  obtain x7 m7 where s7: "msb_step (2, 2 ^ 2) (x6, m6) = (x7, m7)" by force
  have i7: "1 \<le> x7 \<and> x7 < 2 ^ 2 \<and> x div 2 ^ m7 = x7"
    using msb_step_inv [of x6 2 x m6] i6 s7 by simp
  obtain x8 m8 where s8: "msb_step (1, 2 ^ 1) (x7, m7) = (x8, m8)" by force
  have i8: "1 \<le> x8 \<and> x8 < 2 ^ 1 \<and> x div 2 ^ m8 = x8"
    using msb_step_inv [of x7 1 x m7] i7 s8 by simp
  have "fold msb_step POWERS_OF_2 (x, 0) = (x8, m8)"
    using s1 s2 s3 s4 s5 s6 s7 s8 by (simp add: POWERS_OF_2_def)
  then show ?thesis using i8 by simp
qed

lemma msb_bounds:
  assumes "0 < x" "x div 2 ^ m = (1::int)"
  shows "2 ^ m \<le> x \<and> x < 2 ^ (m + 1)"
proof -
  have "x = 2 ^ m * (x div 2 ^ m) + x mod 2 ^ m" by simp
  then have e: "x = 2 ^ m + x mod 2 ^ m" using assms(2) by simp
  have "0 \<le> x mod 2 ^ m" "x mod 2 ^ m < 2 ^ m" by simp_all
  then show ?thesis using e by (simp only: power_add power_one_right) linarith
qed

text \<open>
  C8. For \<open>1 \<le> x \<le> 2 ^ 256 - 1\<close>, \<open>mostSignificantBit x\<close> is the 0-based index \<open>m\<close> of
  the most significant set bit of \<open>x\<close>, that is \<open>2 ^ m \<le> x < 2 ^ (m + 1)\<close>; for \<open>x \<le> 0\<close>
  or \<open>x > 2 ^ 256 - 1\<close> the result is \<open>null\<close> and no number. In particular the results at
  1, 2 and \<open>2 ^ 128\<close> are 0, 1 and 128.
\<close>

theorem mostSignificantBit_spec:
  "(1 \<le> x \<and> x \<le> 2 ^ 256 - 1 \<longrightarrow>
      (\<exists>m. mostSignificantBit x = Some m \<and> 2 ^ m \<le> x \<and> x < 2 ^ (m + 1))) \<and>
   (x \<le> 0 \<or> x > 2 ^ 256 - 1 \<longrightarrow> mostSignificantBit x = None) \<and>
   mostSignificantBit 1 = Some 0 \<and> mostSignificantBit 2 = Some 1 \<and>
   mostSignificantBit (2 ^ 128) = Some 128"
proof (intro conjI impI)
  assume a: "1 \<le> x \<and> x \<le> 2 ^ 256 - 1"
  then have r: "1 \<le> x" "x < 2 ^ 256" by simp_all
  obtain x' m where f: "fold msb_step POWERS_OF_2 (x, 0) = (x', m)" by force
  with msb_fold [OF r] have "x div 2 ^ m = 1" by simp
  with r have "2 ^ m \<le> x \<and> x < 2 ^ (m + 1)" using msb_bounds [of x m] by simp
  moreover have "mostSignificantBit x = Some m"
    using r f by (simp add: mostSignificantBit_def ZERO_def MaxUint256_eq)
  ultimately show "\<exists>m. mostSignificantBit x = Some m \<and> 2 ^ m \<le> x \<and> x < 2 ^ (m + 1)" by blast
next
  assume "x \<le> 0 \<or> x > 2 ^ 256 - 1"
  then show "mostSignificantBit x = None"
    by (auto simp add: mostSignificantBit_def ZERO_def MaxUint256_eq)
next
  show "mostSignificantBit 1 = Some 0"
    by (simp add: mostSignificantBit_def ZERO_def MaxUint256_def POWERS_OF_2_def msb_step_def)
  show "mostSignificantBit 2 = Some 1"
    by (simp add: mostSignificantBit_def ZERO_def MaxUint256_def POWERS_OF_2_def msb_step_def drop_bit_eq_div)
  show "mostSignificantBit (2 ^ 128) = Some 128"
    by (simp add: mostSignificantBit_def ZERO_def MaxUint256_def POWERS_OF_2_def msb_step_def drop_bit_eq_div)
qed

text \<open>The theorem at 1000, at 0 and at \<open>2 ^ 256\<close>.\<close>

theorem mostSignificantBit_spec_witness:
  "(1::int) \<le> 1000 \<and> (1000::int) \<le> 2 ^ 256 - 1 \<and> mostSignificantBit 1000 = Some 9 \<and>
   (2::int) ^ 9 \<le> 1000 \<and> (1000::int) < 2 ^ (9 + 1) \<and>
   (0::int) \<le> 0 \<and> mostSignificantBit 0 = None \<and>
   (2::int) ^ 256 > 2 ^ 256 - 1 \<and> mostSignificantBit (2 ^ 256) = None"
  using mostSignificantBit_spec [of 1000] mostSignificantBit_spec [of 0]
    mostSignificantBit_spec [of "2 ^ 256"]
  by (simp add: mostSignificantBit_def ZERO_def MaxUint256_def POWERS_OF_2_def msb_step_def drop_bit_eq_div)

subsection \<open>getTickIdx on a sorted array of tick objects\<close>

lemma sorted_idx_mono:
  assumes "sorted_wrt (<) (map tickIdx ts)" "0 \<le> i" "i < j" "j < int (length ts)"
  shows "tickIdx (ts ! nat i) < tickIdx (ts ! nat j)"
proof -
  have "nat i < nat j" "nat j < length (map tickIdx ts)" using assms by simp_all
  from sorted_wrt_nth_less [OF assms(1) this] show ?thesis using assms by simp
qed

lemma sorted_idx_unique:
  assumes "sorted_wrt (<) (map tickIdx ts)"
    "0 \<le> i" "i < int (length ts)" "0 \<le> j" "j < int (length ts)"
    "tickIdx (ts ! nat i) = tickIdx (ts ! nat j)"
  shows "i = j"
proof (rule ccontr)
  assume "i \<noteq> j"
  then consider "i < j" | "j < i" by linarith
  then show False
    using sorted_idx_mono [OF assms(1), of i j] sorted_idx_mono [OF assms(1), of j i] assms
    by cases simp_all
qed

lemma array_get_map_Tick:
  "0 \<le> i \<Longrightarrow> i < int (length ts) \<Longrightarrow> array_get (map Tick ts) i = Some (Tick (ts ! nat i))"
  by (simp add: array_get_def)

text \<open>The search finds the position of \<open>tk\<close> when it lies between \<open>left\<close> and \<open>right\<close>.\<close>

lemma loop_found:
  assumes "sorted_wrt (<) (map tickIdx ts)"
  shows "0 \<le> left \<Longrightarrow> right < int (length ts) \<Longrightarrow> left \<le> i \<Longrightarrow> i \<le> right \<Longrightarrow>
         tickIdx (ts ! nat i) = tk \<Longrightarrow> getTickIdx_loop tk (map Tick ts) left right = Inr i"
proof (induction tk "map Tick ts" left right rule: getTickIdx_loop.induct)
  case (1 tk left right)
  let ?mid = "(left + right) div 2"
  have lr: "left \<le> right" using 1 by simp
  have m: "left \<le> ?mid" "?mid \<le> right" using lr by simp_all
  then have mr: "0 \<le> ?mid" "?mid < int (length ts)" using 1 by simp_all
  have g: "array_get (map Tick ts) ?mid = Some (Tick (ts ! nat ?mid))"
    using mr by (rule array_get_map_Tick)
  show ?case
  proof (cases "tickIdx (ts ! nat ?mid) = tk")
    case True
    then have "?mid = i"
      using sorted_idx_unique [OF assms mr, of i] 1 by simp
    then show ?thesis using True g lr by (subst getTickIdx_loop.simps) (simp add: Let_def)
  next
    case False
    show ?thesis
    proof (cases "tk < tickIdx (ts ! nat ?mid)")
      case True
      have "i < ?mid"
      proof (rule ccontr)
        assume "\<not> i < ?mid"
        then have "?mid < i" using False 1 by (cases "i = ?mid") auto
        from sorted_idx_mono [OF assms mr(1) this] 1 True show False by simp
      qed
      then have "getTickIdx_loop tk (map Tick ts) left (?mid - 1) = Inr i"
        using 1(1) [OF lr refl g] False True 1 m by simp
      then show ?thesis using False True g lr by (subst getTickIdx_loop.simps) (simp add: Let_def)
    next
      case nlt: False
      have "?mid < i"
      proof (rule ccontr)
        assume "\<not> ?mid < i"
        then have "i < ?mid" using False 1 by (cases "i = ?mid") auto
        from sorted_idx_mono [OF assms _ this mr(2)] 1 nlt False show False by simp
      qed
      then have "getTickIdx_loop tk (map Tick ts) (?mid + 1) right = Inr i"
        using 1(2) [OF lr refl g] False nlt 1 m by simp
      then show ?thesis using False nlt g lr by (subst getTickIdx_loop.simps) (simp add: Let_def)
    qed
  qed
qed

text \<open>It answers \<open>-1\<close> when no position between \<open>left\<close> and \<open>right\<close> holds \<open>tk\<close>.\<close>

lemma loop_absent:
  "0 \<le> left \<Longrightarrow> right < int (length ts) \<Longrightarrow>
   (\<forall>i. left \<le> i \<and> i \<le> right \<longrightarrow> tickIdx (ts ! nat i) \<noteq> tk) \<Longrightarrow>
   getTickIdx_loop tk (map Tick ts) left right = Inr (- 1)"
proof (induction tk "map Tick ts" left right rule: getTickIdx_loop.induct)
  case (1 tk left right)
  let ?mid = "(left + right) div 2"
  show ?case
  proof (cases "left \<le> right")
    case False
    then show ?thesis by (subst getTickIdx_loop.simps) simp
  next
    case lr: True
    have m: "left \<le> ?mid" "?mid \<le> right" using lr by simp_all
    then have mr: "0 \<le> ?mid" "?mid < int (length ts)" using 1 by simp_all
    have g: "array_get (map Tick ts) ?mid = Some (Tick (ts ! nat ?mid))"
      using mr by (rule array_get_map_Tick)
    have ne: "tickIdx (ts ! nat ?mid) \<noteq> tk" using 1(5) m by blast
    show ?thesis
    proof (cases "tk < tickIdx (ts ! nat ?mid)")
      case True
      have "getTickIdx_loop tk (map Tick ts) left (?mid - 1) = Inr (- 1)"
        using 1(1) [OF lr refl g] ne True 1(3,4,5) m by simp
      then show ?thesis using ne True g lr by (subst getTickIdx_loop.simps) (simp add: Let_def)
    next
      case False
      have "getTickIdx_loop tk (map Tick ts) (?mid + 1) right = Inr (- 1)"
        using 1(2) [OF lr refl g] ne False 1(3,4,5) m by simp
      then show ?thesis using ne False g lr by (subst getTickIdx_loop.simps) (simp add: Let_def)
    qed
  qed
qed

lemma getTickIdx_present:
  "sorted_wrt (<) (map tickIdx ts) \<Longrightarrow> i < length ts \<Longrightarrow> tickIdx (ts ! i) = tk \<Longrightarrow>
   getTickIdx tk (map Tick ts) = Inr (int i)"
  unfolding getTickIdx_def
  using loop_found [of ts 0 "int (length (map Tick ts)) - 1" "int i" tk] by simp

lemma getTickIdx_empty: "getTickIdx tk [] = Inr (- 1)"
  unfolding getTickIdx_def by (subst getTickIdx_loop.simps) simp

text \<open>
  C10. On an array of tick objects strictly ascending by \<open>tickIdx\<close>, \<open>getTickIdx tk\<close>
  returns the position \<open>i\<close> with \<open>ticks[i].tickIdx = tk\<close> when there is one, and that
  position is the only one; it returns \<open>-1\<close> when no element has index \<open>tk\<close>, in
  particular on the empty array.
\<close>

theorem getTickIdx_sorted:
  assumes "sorted_wrt (<) (map tickIdx ts)"
  shows "(\<forall>i < length ts. tickIdx (ts ! i) = tk \<longrightarrow>
            getTickIdx tk (map Tick ts) = Inr (int i) \<and>
            (\<forall>j < length ts. tickIdx (ts ! j) = tk \<longrightarrow> j = i)) \<and>
         (tk \<notin> tickIdx ` set ts \<longrightarrow> getTickIdx tk (map Tick ts) = Inr (- 1)) \<and>
         getTickIdx tk [] = Inr (- 1)"
proof (intro conjI allI impI)
  fix i assume i: "i < length ts" "tickIdx (ts ! i) = tk"
  show "getTickIdx tk (map Tick ts) = Inr (int i)"
    using assms i by (rule getTickIdx_present)
  fix j assume j: "j < length ts" "tickIdx (ts ! j) = tk"
  show "j = i"
    using sorted_idx_unique [OF assms, of "int i" "int j"] i j by simp
next
  assume "tk \<notin> tickIdx ` set ts"
  then have "\<forall>i. 0 \<le> i \<and> i \<le> int (length ts) - 1 \<longrightarrow> tickIdx (ts ! nat i) \<noteq> tk"
    by (auto simp add: image_iff)
  then show "getTickIdx tk (map Tick ts) = Inr (- 1)"
    unfolding getTickIdx_def
    using loop_absent [of 0 "int (length (map Tick ts)) - 1" ts tk] by simp
next
  show "getTickIdx tk [] = Inr (- 1)" by (rule getTickIdx_empty)
qed

text \<open>The theorem on three ticks, at an index that is present (20) and one that is not (25).\<close>

theorem getTickIdx_sorted_witness:
  "sorted_wrt (<) (map tickIdx
     [\<lparr>tickIdx = 10, liquidityDelta = 5, upper = False\<rparr>,
      \<lparr>tickIdx = 20, liquidityDelta = 7, upper = False\<rparr>,
      \<lparr>tickIdx = 30, liquidityDelta = 12, upper = True\<rparr>]) \<and>
   getTickIdx 20 (map Tick
     [\<lparr>tickIdx = 10, liquidityDelta = 5, upper = False\<rparr>,
      \<lparr>tickIdx = 20, liquidityDelta = 7, upper = False\<rparr>,
      \<lparr>tickIdx = 30, liquidityDelta = 12, upper = True\<rparr>]) = Inr 1 \<and>
   getTickIdx 25 (map Tick
     [\<lparr>tickIdx = 10, liquidityDelta = 5, upper = False\<rparr>,
      \<lparr>tickIdx = 20, liquidityDelta = 7, upper = False\<rparr>,
      \<lparr>tickIdx = 30, liquidityDelta = 12, upper = True\<rparr>]) = Inr (- 1)"
proof -
  let ?ts = "[\<lparr>tickIdx = 10, liquidityDelta = 5, upper = False\<rparr>,
              \<lparr>tickIdx = 20, liquidityDelta = 7, upper = False\<rparr>,
              \<lparr>tickIdx = 30, liquidityDelta = 12, upper = True\<rparr>]"
  have s: "sorted_wrt (<) (map tickIdx ?ts)" by simp
  from getTickIdx_sorted [OF s, of 20]
  have "1 < length ?ts \<longrightarrow> tickIdx (?ts ! 1) = 20 \<longrightarrow>
          getTickIdx 20 (map Tick ?ts) = Inr (int 1)" by blast
  then have a: "getTickIdx 20 (map Tick ?ts) = Inr 1" by simp
  from getTickIdx_sorted [OF s, of 25]
  have "25 \<notin> tickIdx ` set ?ts \<longrightarrow> getTickIdx 25 (map Tick ?ts) = Inr (- 1)" by blast
  then have b: "getTickIdx 25 (map Tick ?ts) = Inr (- 1)" by simp
  show ?thesis by (intro conjI s a b)
qed

subsection \<open>Mint and Burn on ticks that are present\<close>

lemma bump_simps [simp]:
  "tickIdx (bump d t) = tickIdx t" "upper (bump d t) = upper t"
  "tick_net (bump d t) = tick_net t + d"
  by (simp_all add: bump_def tick_net_def)

lemma bump_inverse [simp]: "bump (- d) (bump d t) = t" "bump d (bump (- d) t) = t"
  by (simp_all add: bump_def)

lemma insert_by_head:
  "sorted_wrt (\<lambda>a b. c a b \<le> 0) (x # xs) \<Longrightarrow> insert_by c x xs = x # xs"
  by (cases xs) simp_all

text \<open>Sorting leaves an array alone that the comparator already finds in order.\<close>

lemma sort_by_sorted:
  "sorted_wrt (\<lambda>a b. c a b \<le> 0) xs \<Longrightarrow> sort_by c xs = xs"
proof (induction xs)
  case Nil
  then show ?case by (simp add: sort_by_def)
next
  case (Cons x xs)
  then have "sort_by c xs = xs" by simp
  then have "sort_by c (x # xs) = insert_by c x xs" by (simp add: sort_by_def)
  with Cons.prems show ?case by (simp only: insert_by_head)
qed

lemma sort_ticks_sorted:
  assumes "sorted_wrt (<) (map tickIdx ts)"
  shows "sort_by compare_ticks (map Tick ts) = map Tick ts"
proof -
  have "sorted_wrt (\<lambda>a b. tickIdx a < tickIdx b) ts"
    using assms by (simp add: sorted_wrt_map)
  then have "sorted_wrt (\<lambda>a b. compare_ticks (Tick a) (Tick b) \<le> 0) ts"
    by (rule sorted_wrt_mono_rel [rotated]) (simp add: compare_ticks_def)
  then show ?thesis by (intro sort_by_sorted) (simp add: sorted_wrt_map)
qed

lemma with_tick_lower:
  "i < length ts \<Longrightarrow>
   with_tick (map Tick ts) (int i)
     (\<lambda>e. if entry_upper e then liquidityDelta_sub d e else liquidityDelta_add d e) =
   Inr (map Tick (ts[i := bump d (ts ! i)]))"
  by (simp add: with_tick_def array_get_def bump_def map_update)

lemma with_tick_upper:
  "i < length ts \<Longrightarrow>
   with_tick (map Tick ts) (int i)
     (\<lambda>e. if entry_upper e then liquidityDelta_add d e else liquidityDelta_sub d e) =
   Inr (map Tick (ts[i := bump (- d) (ts ! i)]))"
  by (simp add: with_tick_def array_get_def bump_def map_update)

lemma map_tickIdx_update:
  "i < length ts \<Longrightarrow> tickIdx u = tickIdx (ts ! i) \<Longrightarrow> map tickIdx (ts[i := u]) = map tickIdx ts"
  by (simp add: map_update list_update_same_conv)

lemma map_tickIdx_bump:
  "map tickIdx (ts[i := bump d (ts ! i)]) = map tickIdx ts"
proof (cases "i < length ts")
  case True
  then show ?thesis by (intro map_tickIdx_update) simp_all
next
  case False
  then have "ts[i := bump d (ts ! i)] = ts" by (intro list_update_beyond) simp
  then show ?thesis by (simp only:)
qed

lemma nth_present:
  assumes "x \<in> f ` set xs"
  obtains i where "i < length xs" "f (xs ! i) = x"
  using assms by (auto simp add: in_set_conv_nth)

lemma sorted_nth_unique:
  assumes "sorted_wrt (<) (map tickIdx ts)" "i < length ts" "k < length ts"
  shows "tickIdx (ts ! k) = tickIdx (ts ! i) \<longleftrightarrow> k = i"
  using sorted_idx_unique [OF assms(1), of "int k" "int i"] assms(2,3) by auto

text \<open>
  With the bottom tick at position \<open>i\<close> and the top tick at position \<open>j\<close> of a sorted
  array of tick objects, \<open>handleMint\<close> returns, having raised the net of tick \<open>i\<close> and
  lowered the net of tick \<open>j\<close> by the amount.
\<close>

lemma handleMint_present:
  assumes s: "sorted_wrt (<) (map tickIdx ts)" and tp: "ticks pool = map Tick ts"
    and i: "i < length ts" "tickIdx (ts ! i) = bottomTick (args ev)"
    and j: "j < length ts" "tickIdx (ts ! j) = topTick (args ev)"
  defines "ts1 \<equiv> ts[i := bump (amount (args ev)) (ts ! i)]"
  defines "ts2 \<equiv> ts1[j := bump (- amount (args ev)) (ts1 ! j)]"
  shows "handleMint ev pool =
    Return (pool\<lparr>ticks := map Tick ts2,
                 currentLiquidity := currentLiquidity pool +
                   (if bottomTick (args ev) < currentTick pool \<and> currentTick pool < topTick (args ev)
                    then amount (args ev) else 0)\<rparr>)"
proof -
  have g1: "getTickIdx (bottomTick (args ev)) (ticks pool) = Inr (int i)"
    using getTickIdx_present [OF s i] tp by simp
  have g2: "getTickIdx (topTick (args ev)) (ticks pool) = Inr (int j)"
    using getTickIdx_present [OF s j] tp by simp
  have w1: "with_tick (ticks pool) (int i)
     (\<lambda>e. if entry_upper e then liquidityDelta_sub (amount (args ev)) e
          else liquidityDelta_add (amount (args ev)) e) = Inr (map Tick ts1)"
    using with_tick_lower [OF i(1)] tp by (simp add: ts1_def)
  have l1: "j < length ts1" using j by (simp add: ts1_def)
  have w2: "with_tick (map Tick ts1) (int j)
     (\<lambda>e. if entry_upper e then liquidityDelta_add (amount (args ev)) e
          else liquidityDelta_sub (amount (args ev)) e) = Inr (map Tick ts2)"
    using with_tick_upper [OF l1] by (simp add: ts2_def)
  have "map tickIdx ts2 = map tickIdx ts"
    by (simp add: ts2_def ts1_def map_tickIdx_bump)
  with s have "sorted_wrt (<) (map tickIdx ts2)" by simp
  then have so: "sort_by compare_ticks (map Tick ts2) = map Tick ts2"
    by (rule sort_ticks_sorted)
  show ?thesis
    unfolding handleMint_def Let_def g1 g2 by (simp add: w1 w2 so)
qed

lemma handleBurn_present:
  assumes s: "sorted_wrt (<) (map tickIdx ts)" and tp: "ticks pool = map Tick ts"
    and i: "i < length ts" "tickIdx (ts ! i) = bottomTick (args ev)"
    and j: "j < length ts" "tickIdx (ts ! j) = topTick (args ev)"
  defines "ts1 \<equiv> ts[i := bump (- amount (args ev)) (ts ! i)]"
  defines "ts2 \<equiv> ts1[j := bump (amount (args ev)) (ts1 ! j)]"
  shows "handleBurn ev pool =
    Return (pool\<lparr>ticks := map Tick ts2,
                 currentLiquidity := currentLiquidity pool -
                   (if bottomTick (args ev) < currentTick pool \<and> currentTick pool < topTick (args ev)
                    then amount (args ev) else 0)\<rparr>)"
proof -
  have g1: "getTickIdx (bottomTick (args ev)) (ticks pool) = Inr (int i)"
    using getTickIdx_present [OF s i] tp by simp
  have g2: "getTickIdx (topTick (args ev)) (ticks pool) = Inr (int j)"
    using getTickIdx_present [OF s j] tp by simp
  have w1: "with_tick (ticks pool) (int i)
     (\<lambda>e. if entry_upper e then liquidityDelta_add (amount (args ev)) e
          else liquidityDelta_sub (amount (args ev)) e) = Inr (map Tick ts1)"
    using with_tick_upper [OF i(1)] tp by (simp add: ts1_def)
  have l1: "j < length ts1" using j by (simp add: ts1_def)
  have w2: "with_tick (map Tick ts1) (int j)
     (\<lambda>e. if entry_upper e then liquidityDelta_sub (amount (args ev)) e
          else liquidityDelta_add (amount (args ev)) e) = Inr (map Tick ts2)"
    using with_tick_lower [OF l1] by (simp add: ts2_def)
  show ?thesis
    unfolding handleBurn_def Let_def g1 g2 by (simp add: w1 w2)
qed

text \<open>
  On such a pool a Burn after a Mint of the same range and amount restores the pool.
  (The handlers read the fields under \<open>args\<close> only, so one event value serves for both.)
\<close>

lemma mint_burn_present:
  assumes tp: "ticks pool = map Tick ts" and s: "sorted_wrt (<) (map tickIdx ts)"
    and b: "bottomTick (args ev) \<in> tickIdx ` set ts"
    and t: "topTick (args ev) \<in> tickIdx ` set ts"
  shows "handleBurn ev (object_after (handleMint ev pool)) = Return pool"
proof -
  from b obtain i where i: "i < length ts" "tickIdx (ts ! i) = bottomTick (args ev)"
    by (rule nth_present)
  from t obtain j where j: "j < length ts" "tickIdx (ts ! j) = topTick (args ev)"
    by (rule nth_present)
  define L where "L = amount (args ev)"
  define ts1 where "ts1 = ts[i := bump L (ts ! i)]"
  define ts2 where "ts2 = ts1[j := bump (- L) (ts1 ! j)]"
  define c where "c = (if bottomTick (args ev) < currentTick pool \<and>
                              currentTick pool < topTick (args ev) then L else 0)"
  define pool1 where
    "pool1 = pool\<lparr>ticks := map Tick ts2, currentLiquidity := currentLiquidity pool + c\<rparr>"
  have r: "handleMint ev pool = Return pool1"
    unfolding pool1_def c_def ts2_def ts1_def L_def by (rule handleMint_present [OF s tp i j])
  have m: "map tickIdx ts2 = map tickIdx ts"
    by (simp add: ts2_def ts1_def map_tickIdx_bump)
  have s2: "sorted_wrt (<) (map tickIdx ts2)" using s m by simp
  have i2: "i < length ts2" "tickIdx (ts2 ! i) = bottomTick (args ev)"
    using i j by (simp_all add: ts2_def ts1_def nth_list_update)
  have j2: "j < length ts2" "tickIdx (ts2 ! j) = topTick (args ev)"
    using i j by (simp_all add: ts2_def ts1_def nth_list_update)
  define ts3 where "ts3 = ts2[i := bump (- L) (ts2 ! i)]"
  define ts4 where "ts4 = ts3[j := bump L (ts3 ! j)]"
  have tp1: "ticks pool1 = map Tick ts2" by (simp add: pool1_def)
  have r2: "handleBurn ev pool1 = Return (pool1\<lparr>ticks := map Tick ts4,
                 currentLiquidity := currentLiquidity pool1 -
                   (if bottomTick (args ev) < currentTick pool1 \<and>
                       currentTick pool1 < topTick (args ev)
                    then amount (args ev) else 0)\<rparr>)"
    unfolding ts4_def ts3_def L_def by (rule handleBurn_present [OF s2 tp1 i2 j2])
  have "ts4 ! k = ts ! k" if "k < length ts" for k
    using that i(1) j(1)
    by (cases "i = j") (auto simp add: ts4_def ts3_def ts2_def ts1_def nth_list_update)
  then have "ts4 = ts"
    by (intro nth_equalityI) (simp_all add: ts4_def ts3_def ts2_def ts1_def)
  then show ?thesis
    using r r2 tp by (simp add: pool1_def c_def L_def)
qed

subsection \<open>The Mint handler\<close>

text \<open>
  C2, as amended. On a pool whose ticks are tick objects strictly ascending by index and
  hold an entry at \<open>bottomTick\<close> and one at \<open>topTick\<close>, the Mint handler returns and adds
  the amount as a lower-bound delta to the entry at \<open>bottomTick\<close> and subtracts it from
  the entry at \<open>topTick\<close> (read as net liquidity, \<open>tick_net\<close>); no entry changes its index
  or its \<open>upper\<close> mark, none is added or moved; \<open>currentLiquidity\<close> grows by the amount
  exactly when \<open>bottomTick < currentTick < topTick\<close>; \<open>currentTick\<close> and \<open>fee\<close> stay.
\<close>

theorem handleMint_accumulates:
  assumes tp: "ticks pool = map Tick ts" and s: "sorted_wrt (<) (map tickIdx ts)"
    and b: "bottomTick (args ev) \<in> tickIdx ` set ts"
    and t: "topTick (args ev) \<in> tickIdx ` set ts"
  shows "\<exists>ts'. handleMint ev pool =
           Return (pool\<lparr>ticks := map Tick ts',
                        currentLiquidity := currentLiquidity pool +
                          (if bottomTick (args ev) < currentTick pool \<and>
                              currentTick pool < topTick (args ev)
                           then amount (args ev) else 0)\<rparr>) \<and>
         length ts' = length ts \<and>
         (\<forall>k<length ts.
            tickIdx (ts' ! k) = tickIdx (ts ! k) \<and> upper (ts' ! k) = upper (ts ! k) \<and>
            tick_net (ts' ! k) = tick_net (ts ! k)
              + (if tickIdx (ts ! k) = bottomTick (args ev) then amount (args ev) else 0)
              - (if tickIdx (ts ! k) = topTick (args ev) then amount (args ev) else 0))"
proof -
  from b obtain i where i: "i < length ts" "tickIdx (ts ! i) = bottomTick (args ev)"
    by (rule nth_present)
  from t obtain j where j: "j < length ts" "tickIdx (ts ! j) = topTick (args ev)"
    by (rule nth_present)
  define ts1 where "ts1 = ts[i := bump (amount (args ev)) (ts ! i)]"
  define ts2 where "ts2 = ts1[j := bump (- amount (args ev)) (ts1 ! j)]"
  have r: "handleMint ev pool =
           Return (pool\<lparr>ticks := map Tick ts2,
                        currentLiquidity := currentLiquidity pool +
                          (if bottomTick (args ev) < currentTick pool \<and>
                              currentTick pool < topTick (args ev)
                           then amount (args ev) else 0)\<rparr>)"
    unfolding ts2_def ts1_def by (rule handleMint_present [OF s tp i j])
  have l: "length ts2 = length ts" by (simp add: ts2_def ts1_def)
  have "tickIdx (ts2 ! k) = tickIdx (ts ! k) \<and> upper (ts2 ! k) = upper (ts ! k) \<and>
            tick_net (ts2 ! k) = tick_net (ts ! k)
              + (if tickIdx (ts ! k) = bottomTick (args ev) then amount (args ev) else 0)
              - (if tickIdx (ts ! k) = topTick (args ev) then amount (args ev) else 0)"
    if k: "k < length ts" for k
  proof -
    have ki: "tickIdx (ts ! k) = bottomTick (args ev) \<longleftrightarrow> k = i"
      using sorted_nth_unique [OF s i(1) k] i(2) by simp
    have kj: "tickIdx (ts ! k) = topTick (args ev) \<longleftrightarrow> k = j"
      using sorted_nth_unique [OF s j(1) k] j(2) by simp
    show ?thesis
      unfolding ki kj using k i(1) j(1)
      by (simp add: ts2_def ts1_def nth_list_update)
  qed
  with r l show ?thesis by blast
qed

text \<open>
  The theorem on a pool with ticks at -100 and 100 (the second \<open>upper\<close>), at tick 0, for
  Mint(-100, 100, 300): both stored deltas become 800 and the liquidity 800.
\<close>

theorem handleMint_accumulates_witness:
  "sorted_wrt (<) (map tickIdx [\<lparr>tickIdx = - 100, liquidityDelta = 500, upper = False\<rparr>,
                                \<lparr>tickIdx = 100, liquidityDelta = 500, upper = True\<rparr>]) \<and>
   bottomTick (range_args (- 100) 100 300)
     \<in> tickIdx ` set [\<lparr>tickIdx = - 100, liquidityDelta = 500, upper = False\<rparr>,
                       \<lparr>tickIdx = 100, liquidityDelta = 500, upper = True\<rparr>] \<and>
   topTick (range_args (- 100) 100 300)
     \<in> tickIdx ` set [\<lparr>tickIdx = - 100, liquidityDelta = 500, upper = False\<rparr>,
                       \<lparr>tickIdx = 100, liquidityDelta = 500, upper = True\<rparr>] \<and>
   handleMint (decoded ''Mint'' (range_args (- 100) 100 300))
     \<lparr>ticks = [Tick \<lparr>tickIdx = - 100, liquidityDelta = 500, upper = False\<rparr>,
                Tick \<lparr>tickIdx = 100, liquidityDelta = 500, upper = True\<rparr>],
        currentTick = 0, currentLiquidity = 500, fee = 500\<rparr>
   = Return \<lparr>ticks = [Tick \<lparr>tickIdx = - 100, liquidityDelta = 800, upper = False\<rparr>,
                      Tick \<lparr>tickIdx = 100, liquidityDelta = 800, upper = True\<rparr>],
              currentTick = 0, currentLiquidity = 800, fee = 500\<rparr>"
proof -
  let ?ts = "[\<lparr>tickIdx = - 100, liquidityDelta = 500, upper = False\<rparr>,
              \<lparr>tickIdx = 100, liquidityDelta = 500, upper = True\<rparr>]"
  let ?pool = "\<lparr>ticks = map Tick ?ts, currentTick = 0, currentLiquidity = 500, fee = 500\<rparr>"
  let ?ev = "decoded ''Mint'' (range_args (- 100) 100 300)"
  have h1: "ticks ?pool = map Tick ?ts" by simp
  have h2: "sorted_wrt (<) (map tickIdx ?ts)" by simp
  have h3: "bottomTick (args ?ev) \<in> tickIdx ` set ?ts" by (simp add: decoded_def range_args_def)
  have h4: "topTick (args ?ev) \<in> tickIdx ` set ?ts" by (simp add: decoded_def range_args_def)
  from handleMint_accumulates [OF h1 h2 h3 h4]
  obtain ts' where r: "handleMint ?ev ?pool =
           Return (?pool\<lparr>ticks := map Tick ts',
                        currentLiquidity := currentLiquidity ?pool +
                          (if bottomTick (args ?ev) < currentTick ?pool \<and>
                              currentTick ?pool < topTick (args ?ev)
                           then amount (args ?ev) else 0)\<rparr>)"
    and l: "length ts' = length ?ts"
    and k: "\<forall>k<length ?ts.
            tickIdx (ts' ! k) = tickIdx (?ts ! k) \<and> upper (ts' ! k) = upper (?ts ! k) \<and>
            tick_net (ts' ! k) = tick_net (?ts ! k)
              + (if tickIdx (?ts ! k) = bottomTick (args ?ev) then amount (args ?ev) else 0)
              - (if tickIdx (?ts ! k) = topTick (args ?ev) then amount (args ?ev) else 0)"
    by blast
  from l obtain x y where xy: "ts' = [x, y]"
    by (cases ts'; cases "tl ts'"; cases "tl (tl ts')") auto
  from k have "tickIdx x = - 100 \<and> upper x = False \<and> tick_net x = 800"
    by (auto simp add: xy decoded_def range_args_def tick_net_def dest!: spec [of _ 0])
  then have x: "x = \<lparr>tickIdx = - 100, liquidityDelta = 800, upper = False\<rparr>"
    by (cases x) (auto simp add: tick_net_def)
  from k have "tickIdx y = 100 \<and> upper y = True \<and> tick_net y = - 800"
    by (auto simp add: xy decoded_def range_args_def tick_net_def dest!: spec [of _ 1])
  then have y: "y = \<lparr>tickIdx = 100, liquidityDelta = 800, upper = True\<rparr>"
    by (cases y) (auto simp add: tick_net_def)
  have "handleMint ?ev ?pool
     = Return \<lparr>ticks = [Tick \<lparr>tickIdx = - 100, liquidityDelta = 800, upper = False\<rparr>,
                      Tick \<lparr>tickIdx = 100, liquidityDelta = 800, upper = True\<rparr>],
              currentTick = 0, currentLiquidity = 800, fee = 500\<rparr>"
    using r by (simp add: xy x y decoded_def range_args_def)
  then show ?thesis using h2 by (simp add: range_args_def)
qed

text \<open>
  The claim as stated fails where \<open>currentTick = bottomTick\<close>: the tick -100 lies in
  \<open>[-100, 100)\<close>, and Mint(-100, 100, 300) leaves \<open>currentLiquidity\<close> at 500.
\<close>

theorem handleMint_boundary_counterexample:
  "bottomTick (range_args (- 100) 100 300)
     \<le> currentTick \<lparr>ticks = [Tick \<lparr>tickIdx = - 100, liquidityDelta = 500, upper = False\<rparr>,
                               Tick \<lparr>tickIdx = 100, liquidityDelta = 500, upper = True\<rparr>],
                      currentTick = - 100, currentLiquidity = 500, fee = 500\<rparr> \<and>
   currentTick \<lparr>ticks = [Tick \<lparr>tickIdx = - 100, liquidityDelta = 500, upper = False\<rparr>,
                          Tick \<lparr>tickIdx = 100, liquidityDelta = 500, upper = True\<rparr>],
                 currentTick = - 100, currentLiquidity = 500, fee = 500\<rparr>
     < topTick (range_args (- 100) 100 300) \<and>
   handleMint (decoded ''Mint'' (range_args (- 100) 100 300))
     \<lparr>ticks = [Tick \<lparr>tickIdx = - 100, liquidityDelta = 500, upper = False\<rparr>,
                Tick \<lparr>tickIdx = 100, liquidityDelta = 500, upper = True\<rparr>],
        currentTick = - 100, currentLiquidity = 500, fee = 500\<rparr>
   = Return \<lparr>ticks = [Tick \<lparr>tickIdx = - 100, liquidityDelta = 800, upper = False\<rparr>,
                      Tick \<lparr>tickIdx = 100, liquidityDelta = 800, upper = True\<rparr>],
              currentTick = - 100, currentLiquidity = 500, fee = 500\<rparr> \<and>
   (500::int) \<noteq> 500 + amount (range_args (- 100) 100 300)"
  by code_simp

subsection \<open>The Initialize handler\<close>

text \<open>
  C9, as amended. For every pool state and every Initialize event the handler returns,
  with \<open>currentTick\<close> set to the event's tick and \<open>fee\<close> set to the constant 500, whatever
  the event carries; \<open>ticks\<close> and \<open>currentLiquidity\<close> are left as they were.
\<close>

theorem handleInitialize_effect:
  "handleInitialize ev pool = Return (pool\<lparr>fee := 500, currentTick := tick (args ev)\<rparr>) \<and>
   currentTick (object_after (handleInitialize ev pool)) = tick (args ev) \<and>
   fee (object_after (handleInitialize ev pool)) = 500 \<and>
   ticks (object_after (handleInitialize ev pool)) = ticks pool \<and>
   currentLiquidity (object_after (handleInitialize ev pool)) = currentLiquidity pool"
  by (simp add: handleInitialize_def)

text \<open>
  The claim as stated fails on a pool with one tick and liquidity 7, for an Initialize
  event with tick 3 and fee 3000: the fee becomes 500, not 3000, the tick stays in
  \<open>ticks\<close> and the liquidity stays 7.
\<close>

theorem handleInitialize_counterexample:
  "handleInitialize (decoded ''Initialize'' (tick_args 3 3000))
      \<lparr>ticks = [Tick \<lparr>tickIdx = 10, liquidityDelta = 7, upper = False\<rparr>],
         currentTick = 12, currentLiquidity = 7, fee = 100\<rparr>
    = Return \<lparr>ticks = [Tick \<lparr>tickIdx = 10, liquidityDelta = 7, upper = False\<rparr>],
               currentTick = 3, currentLiquidity = 7, fee = 500\<rparr> \<and>
   Fee (args (decoded ''Initialize'' (tick_args 3 3000))) = 3000 \<and>
   (500::int) \<noteq> 3000 \<and>
   [Tick \<lparr>tickIdx = 10, liquidityDelta = 7, upper = False\<rparr>] \<noteq> [] \<and>
   (7::int) \<noteq> 0"
  by code_simp

subsection \<open>Where the handlers leave the invariants of the liquidity book\<close>

text \<open>
  C1. The claim is that in every pool reached from a fresh pool \<open>currentLiquidity\<close> equals
  the sum of the net liquidity of the ticks at or below \<open>currentTick\<close>. The handlers at a
  fresh pool (no ticks, no liquidity), for Initialize(tick 0) and then
  Mint(-100, 100, 1000): the Mint pushes the two tick numbers, not tick objects, and adds
  1000 to \<open>currentLiquidity\<close>, while no tick carries any delta.
\<close>

theorem liquidity_sum_after_first_mint:
  "handleInitialize (decoded ''Initialize'' (tick_args 0 0))
      \<lparr>ticks = [], currentTick = 0, currentLiquidity = 0, fee = 0\<rparr>
     = Return \<lparr>ticks = [], currentTick = 0, currentLiquidity = 0, fee = 500\<rparr> \<and>
   handleMint (decoded ''Mint'' (range_args (- 100) 100 1000))
      \<lparr>ticks = [], currentTick = 0, currentLiquidity = 0, fee = 500\<rparr>
     = Return \<lparr>ticks = [Bare (- 100), Bare 100], currentTick = 0,
                currentLiquidity = 1000, fee = 500\<rparr> \<and>
   activeLiquidity \<lparr>ticks = [Bare (- 100), Bare 100], currentTick = 0,
                     currentLiquidity = 1000, fee = 500\<rparr> = 0"
  by code_simp

text \<open>
  C3. The claim is that after every event \<open>ticks\<close> is strictly ascending with unique
  indices and holds no entry with a zero delta. The handlers on a well-formed pool, for
  Burn(-100, 100, 1000) of all the liquidity of both ticks: both entries stay, with delta
  0. And on an empty pool, for Mint(5, 5, 1000): the number 5 is pushed twice.
\<close>

theorem ticks_after_burn_and_mint:
  "strictly_sorted [Tick \<lparr>tickIdx = - 100, liquidityDelta = 1000, upper = False\<rparr>,
                    Tick \<lparr>tickIdx = 100, liquidityDelta = 1000, upper = True\<rparr>] \<and>
   \<not> list_ex zero_delta [Tick \<lparr>tickIdx = - 100, liquidityDelta = 1000, upper = False\<rparr>,
                         Tick \<lparr>tickIdx = 100, liquidityDelta = 1000, upper = True\<rparr>] \<and>
   handleBurn (decoded ''Burn'' (range_args (- 100) 100 1000))
      \<lparr>ticks = [Tick \<lparr>tickIdx = - 100, liquidityDelta = 1000, upper = False\<rparr>,
                 Tick \<lparr>tickIdx = 100, liquidityDelta = 1000, upper = True\<rparr>],
         currentTick = 0, currentLiquidity = 1000, fee = 500\<rparr>
     = Return \<lparr>ticks = [Tick \<lparr>tickIdx = - 100, liquidityDelta = 0, upper = False\<rparr>,
                        Tick \<lparr>tickIdx = 100, liquidityDelta = 0, upper = True\<rparr>],
                currentTick = 0, currentLiquidity = 0, fee = 500\<rparr> \<and>
   list_ex zero_delta [Tick \<lparr>tickIdx = - 100, liquidityDelta = 0, upper = False\<rparr>,
                       Tick \<lparr>tickIdx = 100, liquidityDelta = 0, upper = True\<rparr>] \<and>
   handleMint (decoded ''Mint'' (range_args 5 5 1000))
      \<lparr>ticks = [], currentTick = 0, currentLiquidity = 0, fee = 500\<rparr>
     = Return \<lparr>ticks = [Bare 5, Bare 5], currentTick = 0, currentLiquidity = 0, fee = 500\<rparr> \<and>
   \<not> strictly_sorted [Bare 5, Bare 5]"
  by code_simp

text \<open>
  C4. The claim is that Mint(a, b, L) followed by Burn(a, b, L) gives back the ticks and
  the liquidity of the pool. The handlers on a pool without ticks, for the range
  (-100, 100) and the amount 1000: the Mint pushes two numbers and adds 1000; the Burn
  finds no tick object at -100, throws, and the pool keeps the two numbers and the 1000.
\<close>

theorem mint_then_burn_on_empty_pool:
  "handleMint (decoded ''Mint'' (range_args (- 100) 100 1000))
      \<lparr>ticks = [], currentTick = 0, currentLiquidity = 0, fee = 500\<rparr>
     = Return \<lparr>ticks = [Bare (- 100), Bare 100], currentTick = 0,
                currentLiquidity = 1000, fee = 500\<rparr> \<and>
   handleBurn (decoded ''Burn'' (range_args (- 100) 100 1000))
      \<lparr>ticks = [Bare (- 100), Bare 100], currentTick = 0, currentLiquidity = 1000, fee = 500\<rparr>
     = Throw TypeError
         \<lparr>ticks = [Bare (- 100), Bare 100], currentTick = 0,
            currentLiquidity = 1000, fee = 500\<rparr>"
  by code_simp

subsection \<open>processLog and the pool object\<close>

text \<open>On a decoded event, which has no \<open>arg\<close>, \<open>handleSwap\<close> throws and writes nothing.\<close>

lemma handleSwap_decoded: "handleSwap (decoded n a) pool = Throw TypeError pool"
  by (simp add: handleSwap_def decoded_def)

lemma handleChangeFee_effect: "handleChangeFee ev pool = Return (pool\<lparr>fee := Fee (args ev)\<rparr>)"
  by (simp add: handleChangeFee_def)

text \<open>A log that does not decode gives \<open>null\<close> and leaves the store as it is.\<close>

lemma processLog_undecodable:
  "logDecoder lg = None \<Longrightarrow> processLog logDecoder s state lg = (Null, s)"
  by (simp add: processLog_def)

text \<open>A handler that throws gives \<open>null\<close>; the object keeps what the handler wrote so far.\<close>

lemma processLog_throw:
  "logDecoder lg = Some ev \<Longrightarrow> handlers (name ev) = Some h \<Longrightarrow> h ev (s state) = Throw e p \<Longrightarrow>
   processLog logDecoder s state lg = (Null, s(state := p))"
  by (simp add: processLog_def)

text \<open>The reference returned is the one received: no second pool object is ever made.\<close>

lemma processLog_same_reference:
  "fst (processLog logDecoder s state lg) = State r \<Longrightarrow> r = state"
  by (auto simp add: processLog_def split: option.splits outcome.splits inherited.splits)

lemma processLog_other_pools:
  "r \<noteq> state \<Longrightarrow> snd (processLog logDecoder s state lg) r = s r"
  by (auto simp add: processLog_def split: option.splits outcome.splits inherited.splits)

text \<open>
  A decoded event named after an inherited property never yields a pool state and
  leaves the store as it is; any other name without a handler hands the state back.
\<close>

lemma processLog_inherited:
  "logDecoder lg = Some ev \<Longrightarrow> object_prototype (name ev) = Some k \<Longrightarrow>
   processLog logDecoder s state lg = ((case k of ReturnsOther \<Rightarrow> Other | Throws \<Rightarrow> Null), s)"
  by (auto simp add: processLog_def handlers_def object_prototype_def
      split: inherited.splits if_splits)

lemma processLog_unhandled:
  "logDecoder lg = Some ev \<Longrightarrow> handlers (name ev) = None \<Longrightarrow>
   object_prototype (name ev) = None \<Longrightarrow> processLog logDecoder s state lg = (State state, s)"
  by (simp add: processLog_def)

text \<open>
  C5. The claim is that a handler returns a new snapshot and leaves the previous one
  unchanged. \<open>processLog\<close> on the pool object at reference 0 (fee 500, ticks at -100 and
  100), with the decoder taken as the identity: for ChangeFee(100) and for
  Mint(-100, 100, 300) the reference returned is 0 again, and the object at 0, the
  previous snapshot, now has fee 100, respectively the deltas 800 and liquidity 800.
\<close>

theorem processLog_writes_previous_snapshot:
  "fee (one_pool
         \<lparr>ticks = [Tick \<lparr>tickIdx = - 100, liquidityDelta = 500, upper = False\<rparr>,
                    Tick \<lparr>tickIdx = 100, liquidityDelta = 500, upper = True\<rparr>],
            currentTick = 0, currentLiquidity = 500, fee = 500\<rparr> 0) = 500 \<and>
   fst (processLog Some
         (one_pool
           \<lparr>ticks = [Tick \<lparr>tickIdx = - 100, liquidityDelta = 500, upper = False\<rparr>,
                      Tick \<lparr>tickIdx = 100, liquidityDelta = 500, upper = True\<rparr>],
              currentTick = 0, currentLiquidity = 500, fee = 500\<rparr>)
         0 (decoded ''ChangeFee'' (fee_args 100))) = State 0 \<and>
   snd (processLog Some
         (one_pool
           \<lparr>ticks = [Tick \<lparr>tickIdx = - 100, liquidityDelta = 500, upper = False\<rparr>,
                      Tick \<lparr>tickIdx = 100, liquidityDelta = 500, upper = True\<rparr>],
              currentTick = 0, currentLiquidity = 500, fee = 500\<rparr>)
         0 (decoded ''ChangeFee'' (fee_args 100))) 0
     = \<lparr>ticks = [Tick \<lparr>tickIdx = - 100, liquidityDelta = 500, upper = False\<rparr>,
                  Tick \<lparr>tickIdx = 100, liquidityDelta = 500, upper = True\<rparr>],
          currentTick = 0, currentLiquidity = 500, fee = 100\<rparr> \<and>
   fst (processLog Some
         (one_pool
           \<lparr>ticks = [Tick \<lparr>tickIdx = - 100, liquidityDelta = 500, upper = False\<rparr>,
                      Tick \<lparr>tickIdx = 100, liquidityDelta = 500, upper = True\<rparr>],
              currentTick = 0, currentLiquidity = 500, fee = 500\<rparr>)
         0 (decoded ''Mint'' (range_args (- 100) 100 300))) = State 0 \<and>
   snd (processLog Some
         (one_pool
           \<lparr>ticks = [Tick \<lparr>tickIdx = - 100, liquidityDelta = 500, upper = False\<rparr>,
                      Tick \<lparr>tickIdx = 100, liquidityDelta = 500, upper = True\<rparr>],
              currentTick = 0, currentLiquidity = 500, fee = 500\<rparr>)
         0 (decoded ''Mint'' (range_args (- 100) 100 300))) 0
     = \<lparr>ticks = [Tick \<lparr>tickIdx = - 100, liquidityDelta = 800, upper = False\<rparr>,
                  Tick \<lparr>tickIdx = 100, liquidityDelta = 800, upper = True\<rparr>],
          currentTick = 0, currentLiquidity = 800, fee = 500\<rparr>"
  by code_simp

text \<open>
  C6. The claim is that a failing event leaves the previous snapshot unmodified.
  \<open>processLog\<close> on the pool object at reference 0 with one tick, at -100 with delta
  1000, for Burn(-100, 100, 400): the handler lowers the delta of tick -100 to 600, then
  throws at the missing tick 100; \<open>processLog\<close> returns \<open>null\<close> and the object at 0 keeps
  the delta 600.
\<close>

theorem processLog_failed_burn_half_applied:
  "ticks (one_pool
           \<lparr>ticks = [Tick \<lparr>tickIdx = - 100, liquidityDelta = 1000, upper = False\<rparr>],
              currentTick = 0, currentLiquidity = 1000, fee = 500\<rparr> 0)
     = [Tick \<lparr>tickIdx = - 100, liquidityDelta = 1000, upper = False\<rparr>] \<and>
   handleBurn (decoded ''Burn'' (range_args (- 100) 100 400))
      \<lparr>ticks = [Tick \<lparr>tickIdx = - 100, liquidityDelta = 1000, upper = False\<rparr>],
         currentTick = 0, currentLiquidity = 1000, fee = 500\<rparr>
     = Throw TypeError
         \<lparr>ticks = [Tick \<lparr>tickIdx = - 100, liquidityDelta = 600, upper = False\<rparr>],
            currentTick = 0, currentLiquidity = 1000, fee = 500\<rparr> \<and>
   fst (processLog Some
         (one_pool
           \<lparr>ticks = [Tick \<lparr>tickIdx = - 100, liquidityDelta = 1000, upper = False\<rparr>],
              currentTick = 0, currentLiquidity = 1000, fee = 500\<rparr>)
         0 (decoded ''Burn'' (range_args (- 100) 100 400))) = Null \<and>
   snd (processLog Some
         (one_pool
           \<lparr>ticks = [Tick \<lparr>tickIdx = - 100, liquidityDelta = 1000, upper = False\<rparr>],
              currentTick = 0, currentLiquidity = 1000, fee = 500\<rparr>)
         0 (decoded ''Burn'' (range_args (- 100) 100 400))) 0
     = \<lparr>ticks = [Tick \<lparr>tickIdx = - 100, liquidityDelta = 600, upper = False\<rparr>],
          currentTick = 0, currentLiquidity = 1000, fee = 500\<rparr>"
  by code_simp

end
